theory Spec2Isabelle
  imports Complex_Main "HOL-Library.AList"
begin

section \<open>Style entries (style.go)\<close>

subsection \<open>Trilean\<close>

text \<open>
  \<^verbatim>\<open>type Trilean uint8\<close> with the three states \<^verbatim>\<open>Pass\<close>, \<^verbatim>\<open>Yes\<close>, \<^verbatim>\<open>No\<close>
  declared by \<^verbatim>\<open>iota\<close>; the enumeration is a datatype.
\<close>

datatype Trilean = Pass | Yes | No

definition Trilean_String :: "Trilean \<Rightarrow> string" where
  "Trilean_String t = (case t of Yes \<Rightarrow> ''Yes'' | No \<Rightarrow> ''No'' | Pass \<Rightarrow> ''Pass'')"

definition Prefix :: "Trilean \<Rightarrow> string \<Rightarrow> string" where
  "Prefix t s = (if t = Yes then s else if t = No then ''no'' @ s else [])"

subsection \<open>Token types\<close>

text \<open>
  Modelled from the spec: the token-category type \<^verbatim>\<open>TokenType\<close> is declared outside
  style.go. It is an enumerated identifier; style.go names five of its constants
  (\<^verbatim>\<open>Background\<close>, \<^verbatim>\<open>Text\<close>, \<^verbatim>\<open>LineHighlight\<close>, \<^verbatim>\<open>LineNumbers\<close>,
  \<^verbatim>\<open>LineNumbersTable\<close>), the last three as distinct cases of one \<^verbatim>\<open>switch\<close>. Every other
  category is \<open>OtherType n\<close>. The constant \<^verbatim>\<open>Background\<close> is written \<open>Background_tt\<close>,
  since \<open>Background\<close> is also a field of \<^verbatim>\<open>StyleEntry\<close>.
\<close>

datatype TokenType =
  Background_tt | Text | LineHighlight | LineNumbers | LineNumbersTable | OtherType nat

subsection \<open>Errors\<close>

text \<open>
  Each \<^verbatim>\<open>fmt.Errorf\<close> of style.go is one constructor, carrying the values its message is
  formatted from. \<open>InvalidEntry\<close> is \<^verbatim>\<open>"invalid entry for %s: %s"\<close> of \<^verbatim>\<open>Build\<close>:
  the token type and the parse error. \<open>DecoderEOF\<close> is the error of \<^verbatim>\<open>d.Token()\<close> when
  the token stream has ended, \<open>ExternalError\<close> any error made outside style.go
  (\<^verbatim>\<open>TokenTypeString\<close>, \<^verbatim>\<open>EncodeToken\<close>).
\<close>

datatype error =
    InvalidBackgroundColour string
  | InvalidBorderColour string
  | InvalidColour string
  | UnknownStyleElement string
  | InvalidEntry TokenType error
  | CannotMarshalStyleWithParent
  | UnexpectedAttribute string
  | MissingStyleNameAttribute
  | MissingStyleThemeAttribute
  | UnexpectedElement string
  | DecoderEOF
  | ExternalError string

subsection \<open>The collaborators of style.go\<close>

text \<open>
  The colour type and the functions on colours and token types that style.go calls are
  declared in other files. They are parameters of the model: \<open>'c\<close> is the type
  \<^verbatim>\<open>Colour\<close> (a numeric type: style.go compares it with the literal \<^verbatim>\<open>0\<close>), and an
  environment holds \<^verbatim>\<open>Colour.IsSet\<close>, \<^verbatim>\<open>ParseColour\<close>, \<^verbatim>\<open>Colour.String\<close>,
  \<^verbatim>\<open>Colour.BrightenOrDarken\<close>, \<^verbatim>\<open>TokenType.Category\<close>, \<^verbatim>\<open>TokenType.SubCategory\<close>,
  \<^verbatim>\<open>TokenTypeString\<close>, \<^verbatim>\<open>TokenType.String\<close>, the zero value of \<^verbatim>\<open>TokenType\<close> (what
  \<^verbatim>\<open>var ttype TokenType\<close> holds) and the numeric value of a token type, which \<^verbatim>\<open><\<close>
  compares.
\<close>

record 'c env =
  IsSet :: "'c \<Rightarrow> bool"
  ParseColour :: "string \<Rightarrow> 'c"
  Colour_String :: "'c \<Rightarrow> string"
  BrightenOrDarken :: "'c \<Rightarrow> real \<Rightarrow> 'c"
  Category :: "TokenType \<Rightarrow> TokenType"
  SubCategory :: "TokenType \<Rightarrow> TokenType"
  TokenTypeString :: "string \<Rightarrow> error + TokenType"
  TokenType_String :: "TokenType \<Rightarrow> string"
  TokenType_zero :: TokenType
  TokenType_value :: "TokenType \<Rightarrow> int"

subsection \<open>StyleEntry\<close>

record 'c StyleEntry =
  Colour :: 'c
  Background :: 'c
  Border :: 'c
  Bold :: Trilean
  Italic :: Trilean
  Underline :: Trilean
  NoInherit :: bool

text \<open>The zero value \<^verbatim>\<open>StyleEntry{}\<close>.\<close>

definition StyleEntry_zero :: "('c::zero) StyleEntry" where
  "StyleEntry_zero =
     \<lparr>Colour = 0, Background = 0, Border = 0,
      Bold = Pass, Italic = Pass, Underline = Pass, NoInherit = False\<rparr>"

definition IsZero :: "('c::zero) StyleEntry \<Rightarrow> bool" where
  "IsZero s \<longleftrightarrow>
     Colour s = 0 \<and> Background s = 0 \<and> Border s = 0 \<and> Bold s = Pass \<and> Italic s = Pass \<and>
     Underline s = Pass \<and> \<not> NoInherit s"

text \<open>\<^verbatim>\<open>Sub\<close>: six comparisons, each copying one field of \<open>s\<close> into the zero entry.\<close>

definition Sub :: "('c::zero) StyleEntry \<Rightarrow> 'c StyleEntry \<Rightarrow> 'c StyleEntry" where
  "Sub s e =
    (let out = StyleEntry_zero;
         out = (if Colour e \<noteq> Colour s then out\<lparr>Colour := Colour s\<rparr> else out);
         out = (if Background e \<noteq> Background s then out\<lparr>Background := Background s\<rparr> else out);
         out = (if Bold e \<noteq> Bold s then out\<lparr>Bold := Bold s\<rparr> else out);
         out = (if Italic e \<noteq> Italic s then out\<lparr>Italic := Italic s\<rparr> else out);
         out = (if Underline e \<noteq> Underline s then out\<lparr>Underline := Underline s\<rparr> else out);
         out = (if Border e \<noteq> Border s then out\<lparr>Border := Border s\<rparr> else out)
     in out)"

text \<open>
  \<^verbatim>\<open>Inherit\<close>. The body of the loop is \<open>Inherit_step\<close>; the loop runs from the last
  ancestor to the first, so \<open>Inherit_loop\<close> recurses over the reversed list and returns
  as soon as \<open>out\<close> has \<^verbatim>\<open>NoInherit\<close>.
\<close>

definition Inherit_step :: "'c env \<Rightarrow> 'c StyleEntry \<Rightarrow> 'c StyleEntry \<Rightarrow> 'c StyleEntry" where
  "Inherit_step E out ancestor =
    (let out = (if \<not> IsSet E (Colour out) then out\<lparr>Colour := Colour ancestor\<rparr> else out);
         out = (if \<not> IsSet E (Background out) then out\<lparr>Background := Background ancestor\<rparr> else out);
         out = (if \<not> IsSet E (Border out) then out\<lparr>Border := Border ancestor\<rparr> else out);
         out = (if Bold out = Pass then out\<lparr>Bold := Bold ancestor\<rparr> else out);
         out = (if Italic out = Pass then out\<lparr>Italic := Italic ancestor\<rparr> else out);
         out = (if Underline out = Pass then out\<lparr>Underline := Underline ancestor\<rparr> else out)
     in out)"

fun Inherit_loop :: "'c env \<Rightarrow> 'c StyleEntry \<Rightarrow> 'c StyleEntry list \<Rightarrow> 'c StyleEntry" where
  "Inherit_loop E out [] = out"
| "Inherit_loop E out (ancestor # rest) =
     (if NoInherit out then out else Inherit_loop E (Inherit_step E out ancestor) rest)"

definition Inherit :: "'c env \<Rightarrow> 'c StyleEntry \<Rightarrow> 'c StyleEntry list \<Rightarrow> 'c StyleEntry" where
  "Inherit E s ancestors = Inherit_loop E s (rev ancestors)"

section \<open>The textual form of an entry\<close>

subsection \<open>strings.Fields, strings.Join, strings.HasPrefix\<close>

text \<open>
  A Go string is a sequence of bytes, here a \<open>string\<close>. \<^verbatim>\<open>strings.Fields\<close> splits it
  around each run of white space as \<^verbatim>\<open>unicode.IsSpace\<close> defines it, reading the bytes as
  UTF-8: the six ASCII characters tab, line feed, vertical tab, form feed, carriage return
  and space, and the code points U+0085, U+00A0, U+1680, U+2000 to U+200A, U+2028, U+2029,
  U+202F, U+205F and U+3000. \<open>space_width\<close> is the number of bytes of the white-space
  character the string starts with, \<open>0\<close> when it starts with none. Each of these
  encodings starts with a byte that is no continuation byte, so the decoder of
  \<^verbatim>\<open>strings.Fields\<close> meets them at a character boundary wherever they stand.
\<close>

definition ascii_space :: "char \<Rightarrow> bool" where
  "ascii_space c \<longleftrightarrow> (let n = (of_char c :: nat) in (9 \<le> n \<and> n \<le> 13) \<or> n = 32)"

fun space_width :: "string \<Rightarrow> nat" where
  "space_width [] = 0"
| "space_width (c # cs) =
     (let n = (of_char c :: nat); ns = map of_char (take 2 cs) :: nat list in
      if ascii_space c then 1
      else if n = 0xC2 then
        (case ns of d # _ \<Rightarrow> if d = 0x85 \<or> d = 0xA0 then 2 else 0 | [] \<Rightarrow> 0)
      else if n = 0xE1 then (if ns = [0x9A, 0x80] then 3 else 0)
      else if n = 0xE2 then
        (case ns of
           [d, e] \<Rightarrow>
             if d = 0x80 \<and> ((0x80 \<le> e \<and> e \<le> 0x8A) \<or> e = 0xA8 \<or> e = 0xA9 \<or> e = 0xAF) then 3
             else if d = 0x81 \<and> e = 0x9F then 3
             else 0
         | _ \<Rightarrow> 0)
      else if n = 0xE3 then (if ns = [0x80, 0x80] then 3 else 0)
      else 0)"

text \<open>
  \<open>Fields_from s cur\<close> reads \<open>s\<close> with the field \<open>cur\<close> under way: a white-space
  character ends the field (an empty one is dropped), any other byte joins it.
\<close>

fun Fields_from :: "string \<Rightarrow> string \<Rightarrow> string list" where
  "Fields_from [] cur = (if cur = [] then [] else [cur])"
| "Fields_from (c # cs) cur =
     (if space_width (c # cs) = 0 then Fields_from cs (cur @ [c])
      else (if cur = [] then [] else [cur]) @ Fields_from (drop (space_width (c # cs) - 1) cs) [])"

definition Fields :: "string \<Rightarrow> string list" where
  "Fields s = Fields_from s []"

fun Join :: "string list \<Rightarrow> string \<Rightarrow> string" where
  "Join [] sep = []"
| "Join [x] sep = x"
| "Join (x # y # ys) sep = x @ sep @ Join (y # ys) sep"

definition HasPrefix :: "string \<Rightarrow> string \<Rightarrow> bool" where
  "HasPrefix s p \<longleftrightarrow> take (length p) s = p"

subsection \<open>StyleEntry.String\<close>

text \<open>\<open>String_out\<close> is the slice \<^verbatim>\<open>out\<close> that \<^verbatim>\<open>String\<close> builds and then joins.\<close>

definition String_out :: "'c env \<Rightarrow> 'c StyleEntry \<Rightarrow> string list" where
  "String_out E s =
    (let out = [];
         out = (if Bold s \<noteq> Pass then out @ [Prefix (Bold s) ''bold''] else out);
         out = (if Italic s \<noteq> Pass then out @ [Prefix (Italic s) ''italic''] else out);
         out = (if Underline s \<noteq> Pass then out @ [Prefix (Underline s) ''underline''] else out);
         out = (if NoInherit s then out @ [''noinherit''] else out);
         out = (if IsSet E (Colour s) then out @ [Colour_String E (Colour s)] else out);
         out = (if IsSet E (Background s)
                then out @ [''bg:'' @ Colour_String E (Background s)] else out);
         out = (if IsSet E (Border s)
                then out @ [''border:'' @ Colour_String E (Border s)] else out)
     in out)"

definition StyleEntry_String :: "'c env \<Rightarrow> 'c StyleEntry \<Rightarrow> string" where
  "StyleEntry_String E s = Join (String_out E s) '' ''"

subsection \<open>ParseStyleEntry\<close>

text \<open>
  \<open>parse_part\<close> is the \<^verbatim>\<open>switch\<close> of the loop, its cases in the order of the source;
  \<open>parse_parts\<close> is the loop, which returns at the first error.
\<close>

definition parse_part :: "('c::zero) env \<Rightarrow> 'c StyleEntry \<Rightarrow> string \<Rightarrow> error + 'c StyleEntry" where
  "parse_part E out part =
    (if part = ''italic'' then Inr (out\<lparr>Italic := Yes\<rparr>)
     else if part = ''noitalic'' then Inr (out\<lparr>Italic := No\<rparr>)
     else if part = ''bold'' then Inr (out\<lparr>Bold := Yes\<rparr>)
     else if part = ''nobold'' then Inr (out\<lparr>Bold := No\<rparr>)
     else if part = ''underline'' then Inr (out\<lparr>Underline := Yes\<rparr>)
     else if part = ''nounderline'' then Inr (out\<lparr>Underline := No\<rparr>)
     else if part = ''inherit'' then Inr (out\<lparr>NoInherit := False\<rparr>)
     else if part = ''noinherit'' then Inr (out\<lparr>NoInherit := True\<rparr>)
     else if part = ''bg:'' then Inr (out\<lparr>Background := 0\<rparr>)
     else if HasPrefix part ''bg:#'' then
       (let out = out\<lparr>Background := ParseColour E (drop 3 part)\<rparr> in
        if \<not> IsSet E (Background out) then Inl (InvalidBackgroundColour part) else Inr out)
     else if HasPrefix part ''border:#'' then
       (let out = out\<lparr>Border := ParseColour E (drop 7 part)\<rparr> in
        if \<not> IsSet E (Border out) then Inl (InvalidBorderColour part) else Inr out)
     else if HasPrefix part ''#'' then
       (let out = out\<lparr>Colour := ParseColour E part\<rparr> in
        if \<not> IsSet E (Colour out) then Inl (InvalidColour part) else Inr out)
     else Inl (UnknownStyleElement part))"

fun parse_parts :: "('c::zero) env \<Rightarrow> 'c StyleEntry \<Rightarrow> string list \<Rightarrow> error + 'c StyleEntry" where
  "parse_parts E out [] = Inr out"
| "parse_parts E out (part # parts) =
     (case parse_part E out part of
        Inl err \<Rightarrow> Inl err
      | Inr out' \<Rightarrow> parse_parts E out' parts)"

definition ParseStyleEntry :: "('c::zero) env \<Rightarrow> string \<Rightarrow> error + 'c StyleEntry" where
  "ParseStyleEntry E entry = parse_parts E StyleEntry_zero (Fields entry)"

section \<open>Styles (style.go)\<close>

text \<open>
  \<^verbatim>\<open>Style\<close>: the two names, the Go map \<^verbatim>\<open>entries\<close> as an association list with one
  pair per key (a read of a key the map does not hold gives the zero entry), and the
  \<^verbatim>\<open>parent\<close> pointer, \<open>None\<close> for \<^verbatim>\<open>nil\<close>.
\<close>

datatype 'c Style =
  Style (Name: string) (Theme: string) (entries: "(TokenType \<times> 'c StyleEntry) list")
    (parent: "'c Style option")

definition entry_at :: "(TokenType \<times> ('c::zero) StyleEntry) list \<Rightarrow> TokenType \<Rightarrow> 'c StyleEntry" where
  "entry_at m ttype = (case map_of m ttype of None \<Rightarrow> StyleEntry_zero | Some e \<Rightarrow> e)"

definition synthesisable :: "TokenType \<Rightarrow> bool" where
  "synthesisable ttype \<longleftrightarrow>
     ttype = LineHighlight \<or> ttype = LineNumbers \<or> ttype = LineNumbersTable"

lemma parent_smaller: "parent s = Some p \<Longrightarrow> size p < size s"
  by (cases s) simp

text \<open>
  \<^verbatim>\<open>get\<close> and \<^verbatim>\<open>synthesise\<close> call each other: \<^verbatim>\<open>get\<close> goes up the parent chain while
  its own entry is zero, and at the style without parent calls \<^verbatim>\<open>synthesise\<close>, which
  calls \<^verbatim>\<open>get\<close> of the same style for \<^verbatim>\<open>Background\<close>.
\<close>

function get :: "('c::zero) env \<Rightarrow> 'c Style \<Rightarrow> TokenType \<Rightarrow> 'c StyleEntry"
  and synthesise :: "('c::zero) env \<Rightarrow> 'c Style \<Rightarrow> TokenType \<Rightarrow> 'c StyleEntry" where
  "get E s ttype =
     (if IsZero (entry_at (entries s) ttype) \<and> parent s \<noteq> None
      then get E (the (parent s)) ttype
      else if IsZero (entry_at (entries s) ttype) \<and> synthesisable ttype
      then synthesise E s ttype
      else entry_at (entries s) ttype)"
| "synthesise E s ttype =
     (let bg = get E s Background_tt;
          text = StyleEntry_zero\<lparr>Colour := Colour bg\<rparr>;
          text = text\<lparr>Colour := BrightenOrDarken E (Colour text) 0.5\<rparr>
      in case ttype of
           LineHighlight \<Rightarrow>
             StyleEntry_zero\<lparr>Background := BrightenOrDarken E (Background bg) 0.1\<rparr>
         | LineNumbers \<Rightarrow> text
         | LineNumbersTable \<Rightarrow> text
         | _ \<Rightarrow> StyleEntry_zero)"
  by pat_completeness auto
termination
  by (relation "measure (\<lambda>x. case x of
        Inl (E, s, ttype) \<Rightarrow> 3 * size s + (if synthesisable ttype then 2 else 0)
      | Inr (E, s, ttype) \<Rightarrow> 3 * size s + 1)")
    (auto simp: synthesisable_def dest: parent_smaller)

declare get.simps [simp del] synthesise.simps [simp del]

definition Get :: "('c::zero) env \<Rightarrow> 'c Style \<Rightarrow> TokenType \<Rightarrow> 'c StyleEntry" where
  "Get E s ttype =
     Inherit E (get E s ttype)
       [get E s Background_tt, get E s Text, get E s (Category E ttype),
        get E s (SubCategory E ttype)]"

definition Has :: "('c::zero) env \<Rightarrow> 'c Style \<Rightarrow> TokenType \<Rightarrow> bool" where
  "Has E s ttype \<longleftrightarrow> \<not> IsZero (get E s ttype) \<or> synthesisable ttype"

section \<open>StyleBuilder\<close>

text \<open>
  The builder holds raw descriptors, one per token type (the Go map \<^verbatim>\<open>entries\<close>, again a
  list with one pair per key), the two names and the parent. A \<^verbatim>\<open>range\<close> over a Go map
  visits its keys in an order the language does not fix; the list's order stands for the
  order of one run, and a statement about every list covers every order.
\<close>

record 'c StyleBuilder =
  builder_entries :: "(TokenType \<times> string) list"
  builder_name :: string
  builder_theme :: string
  builder_parent :: "'c Style option"

definition NewStyleBuilder :: "string \<Rightarrow> string \<Rightarrow> 'c StyleBuilder" where
  "NewStyleBuilder name theme =
     \<lparr>builder_entries = [], builder_name = name, builder_theme = theme, builder_parent = None\<rparr>"

definition Add :: "'c StyleBuilder \<Rightarrow> TokenType \<Rightarrow> string \<Rightarrow> 'c StyleBuilder" where
  "Add b ttype entry = b\<lparr>builder_entries := AList.update ttype entry (builder_entries b)\<rparr>"

definition AddEntry :: "'c env \<Rightarrow> 'c StyleBuilder \<Rightarrow> TokenType \<Rightarrow> 'c StyleEntry \<Rightarrow> 'c StyleBuilder" where
  "AddEntry E b ttype entry =
     b\<lparr>builder_entries := AList.update ttype (StyleEntry_String E entry) (builder_entries b)\<rparr>"

definition Builder :: "'c Style \<Rightarrow> 'c StyleBuilder" where
  "Builder s =
     \<lparr>builder_entries = [], builder_name = Name s, builder_theme = Theme s,
      builder_parent = Some s\<rparr>"

text \<open>
  \<^verbatim>\<open>Build\<close> returns a pair \<^verbatim>\<open>(*Style, error)\<close>, each \<open>None\<close> for \<^verbatim>\<open>nil\<close>.
  \<open>Build_entries\<close> is its loop over the staged descriptors.
\<close>

fun Build_entries ::
  "('c::zero) env \<Rightarrow> (TokenType \<times> string) list \<Rightarrow> (TokenType \<times> 'c StyleEntry) list \<Rightarrow>
     error + (TokenType \<times> 'c StyleEntry) list" where
  "Build_entries E [] acc = Inr acc"
| "Build_entries E ((ttype, descriptor) # rest) acc =
     (case ParseStyleEntry E descriptor of
        Inl err \<Rightarrow> Inl (InvalidEntry ttype err)
      | Inr entry \<Rightarrow> Build_entries E rest (AList.update ttype entry acc))"

definition Build :: "('c::zero) env \<Rightarrow> 'c StyleBuilder \<Rightarrow> 'c Style option \<times> error option" where
  "Build E b =
     (case Build_entries E (builder_entries b) [] of
        Inl err \<Rightarrow> (None, Some err)
      | Inr es \<Rightarrow> (Some (Style (builder_name b) (builder_theme b) es (builder_parent b)), None))"

section \<open>The XML form of a style\<close>

text \<open>
  A token of \<^verbatim>\<open>encoding/xml\<close>: a start element with the local name and the attributes
  (local name and value), an end element with its local name, or any other token
  (character data, comment, processing instruction, directive), which the decoder's
  \<^verbatim>\<open>switch\<close> passes over. The decoder is the list of tokens still to come; \<^verbatim>\<open>d.Token()\<close>
  takes the first, and fails once none is left.
\<close>

datatype xml_token =
    StartElement string "(string \<times> string) list"
  | EndElement string
  | OtherToken

subsection \<open>Style.MarshalXML\<close>

text \<open>
  \<^verbatim>\<open>e.EncodeToken\<close> is a parameter: from the encoder's state and a token, an error or
  \<^verbatim>\<open>nil\<close>, and the new state. \<^verbatim>\<open>MarshalXML\<close> overwrites the name and the attributes of
  the \<^verbatim>\<open>start\<close> it is called with, so the model does not take it. The keys are sorted by
  \<^verbatim>\<open><\<close> on the token types' numeric values.
\<close>

fun MarshalXML_entries ::
  "('c::zero) env \<Rightarrow> ('e \<Rightarrow> xml_token \<Rightarrow> error option \<times> 'e) \<Rightarrow> (TokenType \<times> 'c StyleEntry) list \<Rightarrow>
     TokenType list \<Rightarrow> 'e \<Rightarrow> error option \<times> 'e" where
  "MarshalXML_entries E EncodeToken m [] e = (None, e)"
| "MarshalXML_entries E EncodeToken m (ttype # rest) e =
     (let entry = entry_at m ttype;
          el = StartElement ''entry''
                 [(''type'', TokenType_String E ttype), (''style'', StyleEntry_String E entry)]
      in case EncodeToken e el of
           (Some err, e1) \<Rightarrow> (Some err, e1)
         | (None, e1) \<Rightarrow>
             (case EncodeToken e1 (EndElement ''entry'') of
                (Some err, e2) \<Rightarrow> (Some err, e2)
              | (None, e2) \<Rightarrow> MarshalXML_entries E EncodeToken m rest e2))"

definition MarshalXML ::
  "('c::zero) env \<Rightarrow> ('e \<Rightarrow> xml_token \<Rightarrow> error option \<times> 'e) \<Rightarrow> 'c Style \<Rightarrow> 'e \<Rightarrow> error option \<times> 'e" where
  "MarshalXML E EncodeToken s e =
     (if parent s \<noteq> None then (Some CannotMarshalStyleWithParent, e)
      else
        case EncodeToken e (StartElement ''style'' [(''name'', Name s), (''theme'', Theme s)]) of
          (Some err, e1) \<Rightarrow> (Some err, e1)
        | (None, e1) \<Rightarrow>
            (let sorted_keys = sort_key (TokenType_value E) (map fst (entries s)) in
             case MarshalXML_entries E EncodeToken (entries s) sorted_keys e1 of
               (Some err, e2) \<Rightarrow> (Some err, e2)
             | (None, e2) \<Rightarrow> EncodeToken e2 (EndElement ''style'')))"

subsection \<open>Style.UnmarshalXML and NewXMLStyle\<close>

text \<open>
  \<^verbatim>\<open>UnmarshalXML\<close> writes into the style it is called on and returns an error or \<^verbatim>\<open>nil\<close>;
  the model returns the error and the style as the call leaves it. \<open>style_attrs\<close> is the
  loop over the attributes of the root element, \<open>entry_attrs\<close> the loop over those of one
  child element (its two local variables start at their zero values),
  \<open>UnmarshalXML_tokens\<close> the loop over the tokens; \<open>start_name\<close> is
  \<^verbatim>\<open>start.Name.Local\<close>.
\<close>

fun style_attrs :: "'c Style \<Rightarrow> (string \<times> string) list \<Rightarrow> error option \<times> 'c Style" where
  "style_attrs s [] = (None, s)"
| "style_attrs s ((n, v) # attrs) =
     (if n = ''name'' then style_attrs (Style v (Theme s) (entries s) (parent s)) attrs
      else if n = ''theme'' then style_attrs (Style (Name s) v (entries s) (parent s)) attrs
      else (Some (UnexpectedAttribute n), s))"

fun entry_attrs ::
  "('c::zero) env \<Rightarrow> TokenType \<Rightarrow> 'c StyleEntry \<Rightarrow> (string \<times> string) list \<Rightarrow>
     error + (TokenType \<times> 'c StyleEntry)" where
  "entry_attrs E ttype entry [] = Inr (ttype, entry)"
| "entry_attrs E ttype entry ((n, v) # attrs) =
     (if n = ''type'' then
        (case TokenTypeString E v of
           Inl err \<Rightarrow> Inl err
         | Inr ttype' \<Rightarrow> entry_attrs E ttype' entry attrs)
      else if n = ''style'' then
        (case ParseStyleEntry E v of
           Inl err \<Rightarrow> Inl err
         | Inr entry' \<Rightarrow> entry_attrs E ttype entry' attrs)
      else Inl (UnexpectedAttribute n))"

definition set_entry :: "'c Style \<Rightarrow> TokenType \<Rightarrow> 'c StyleEntry \<Rightarrow> 'c Style" where
  "set_entry s ttype entry =
     Style (Name s) (Theme s) (AList.update ttype entry (entries s)) (parent s)"

fun UnmarshalXML_tokens ::
  "('c::zero) env \<Rightarrow> 'c Style \<Rightarrow> string \<Rightarrow> xml_token list \<Rightarrow> error option \<times> 'c Style" where
  "UnmarshalXML_tokens E s start_name [] = (Some DecoderEOF, s)"
| "UnmarshalXML_tokens E s start_name (StartElement n attrs # d) =
     (if n \<noteq> ''entry'' then (Some (UnexpectedElement n), s)
      else
        case entry_attrs E (TokenType_zero E) StyleEntry_zero attrs of
          Inl err \<Rightarrow> (Some err, s)
        | Inr (ttype, entry) \<Rightarrow> UnmarshalXML_tokens E (set_entry s ttype entry) start_name d)"
| "UnmarshalXML_tokens E s start_name (EndElement n # d) =
     (if n = start_name then (None, s) else UnmarshalXML_tokens E s start_name d)"
| "UnmarshalXML_tokens E s start_name (OtherToken # d) = UnmarshalXML_tokens E s start_name d"

definition UnmarshalXML ::
  "('c::zero) env \<Rightarrow> 'c Style \<Rightarrow> xml_token list \<Rightarrow> string \<Rightarrow> (string \<times> string) list \<Rightarrow>
     error option \<times> 'c Style" where
  "UnmarshalXML E s d start_name start_attrs =
     (case style_attrs s start_attrs of
        (Some err, s1) \<Rightarrow> (Some err, s1)
      | (None, s1) \<Rightarrow>
          if Name s1 = [] then (Some MissingStyleNameAttribute, s1)
          else if Theme s1 = [] then (Some MissingStyleThemeAttribute, s1)
          else UnmarshalXML_tokens E (Style (Name s1) (Theme s1) [] (parent s1)) start_name d)"

text \<open>
  \<^verbatim>\<open>NewXMLStyle\<close> makes the empty style \<^verbatim>\<open>&Style{}\<close>, has \<^verbatim>\<open>dec.Decode\<close> fill it and
  returns the pointer to it together with the error of \<^verbatim>\<open>Decode\<close>. \<open>Decode\<close> is the
  effect of \<^verbatim>\<open>dec.Decode\<close> on the style it is given: for a \<^verbatim>\<open>*Style\<close> it reads up to the
  root element's start tag and calls \<^verbatim>\<open>UnmarshalXML\<close> with the decoder and that tag, and an
  error of \<^verbatim>\<open>UnmarshalXML\<close> is the error it returns.
\<close>

definition NewXMLStyle ::
  "('c Style \<Rightarrow> error option \<times> 'c Style) \<Rightarrow> 'c Style option \<times> error option" where
  "NewXMLStyle Decode =
     (let style = Style [] [] [] None;
          (err, style) = Decode style
      in (Some style, err))"

section \<open>An instance of the collaborators\<close>

text \<open>
  Modelled from the spec: the colour type and the token-type functions are not in style.go.
  The spec describes the colour as an RGB value with a distinguishable unset state, written
  \<^verbatim>\<open>#RRGGBB\<close>, whose parse gives an unset colour for a malformed literal, and with a
  brightness adjustment that brightens a dark colour and darkens a light one; a token type
  projects to a broader category and sub-category and has a name. The instance below is used
  for the concrete inputs only: a colour is an integer, \<open>0\<close> when unset and \<open>1 + 0xRRGGBB\<close>
  otherwise.
\<close>

definition hex_value :: "char \<Rightarrow> nat option" where
  "hex_value c =
     (let n = (of_char c :: nat) in
      if 48 \<le> n \<and> n \<le> 57 then Some (n - 48)
      else if 97 \<le> n \<and> n \<le> 102 then Some (n - 87)
      else if 65 \<le> n \<and> n \<le> 70 then Some (n - 55)
      else None)"

definition hex_digit :: "nat \<Rightarrow> char" where
  "hex_digit n = ''0123456789abcdef'' ! (n mod 16)"

definition rgb_IsSet :: "int \<Rightarrow> bool" where
  "rgb_IsSet c \<longleftrightarrow> c \<noteq> 0"

definition rgb_ParseColour :: "string \<Rightarrow> int" where
  "rgb_ParseColour s =
     (case s of
        [] \<Rightarrow> 0
      | c # ds \<Rightarrow>
          if c = CHR ''#'' \<and> length ds = 6 then
            (case those (map hex_value ds) of
               None \<Rightarrow> 0
             | Some vs \<Rightarrow> 1 + int (foldl (\<lambda>a d. 16 * a + d) 0 vs))
          else 0)"

definition rgb_String :: "int \<Rightarrow> string" where
  "rgb_String c =
     CHR ''#'' # map (\<lambda>i. hex_digit (nat (c - 1) div 16 ^ i)) [5, 4, 3, 2, 1, 0]"

definition rgb_channel :: "nat \<Rightarrow> int \<Rightarrow> int" where
  "rgb_channel i c = (c - 1) div 256 ^ i mod 256"

definition rgb_Brighten :: "int \<Rightarrow> real \<Rightarrow> int" where
  "rgb_Brighten c factor =
     (let adjust = (\<lambda>v. if factor < 0 then \<lfloor>real_of_int v * (factor + 1)\<rfloor>
                         else \<lfloor>(255 - real_of_int v) * factor + real_of_int v\<rfloor>)
      in 1 + 65536 * adjust (rgb_channel 2 c) + 256 * adjust (rgb_channel 1 c)
           + adjust (rgb_channel 0 c))"

definition rgb_BrightenOrDarken :: "int \<Rightarrow> real \<Rightarrow> int" where
  "rgb_BrightenOrDarken c factor =
     (if 2 * (rgb_channel 2 c + rgb_channel 1 c + rgb_channel 0 c) < 3 * 255
      then rgb_Brighten c factor else rgb_Brighten c (- factor))"

definition example_Category :: "TokenType \<Rightarrow> TokenType" where
  "example_Category t = (case t of OtherType n \<Rightarrow> OtherType (n div 1000 * 1000) | _ \<Rightarrow> t)"

definition example_SubCategory :: "TokenType \<Rightarrow> TokenType" where
  "example_SubCategory t = (case t of OtherType n \<Rightarrow> OtherType (n div 100 * 100) | _ \<Rightarrow> t)"

definition example_TokenType_String :: "TokenType \<Rightarrow> string" where
  "example_TokenType_String t =
     (case t of
        Background_tt \<Rightarrow> ''Background'' | Text \<Rightarrow> ''Text'' | LineHighlight \<Rightarrow> ''LineHighlight''
      | LineNumbers \<Rightarrow> ''LineNumbers'' | LineNumbersTable \<Rightarrow> ''LineNumbersTable''
      | OtherType n \<Rightarrow> ''Other'')"

definition example_TokenTypeString :: "string \<Rightarrow> error + TokenType" where
  "example_TokenTypeString s =
     (if s = ''Background'' then Inr Background_tt
      else if s = ''Text'' then Inr Text
      else if s = ''LineHighlight'' then Inr LineHighlight
      else if s = ''LineNumbers'' then Inr LineNumbers
      else if s = ''LineNumbersTable'' then Inr LineNumbersTable
      else Inl (ExternalError s))"

definition example_TokenType_value :: "TokenType \<Rightarrow> int" where
  "example_TokenType_value t =
     (case t of
        Background_tt \<Rightarrow> - 1 | Text \<Rightarrow> - 2 | LineHighlight \<Rightarrow> - 3 | LineNumbers \<Rightarrow> - 4
      | LineNumbersTable \<Rightarrow> - 5 | OtherType n \<Rightarrow> int n)"

definition example_env :: "int env" where
  "example_env =
     \<lparr>IsSet = rgb_IsSet, ParseColour = rgb_ParseColour, Colour_String = rgb_String,
      BrightenOrDarken = rgb_BrightenOrDarken, Category = example_Category,
      SubCategory = example_SubCategory, TokenTypeString = example_TokenTypeString,
      TokenType_String = example_TokenType_String, TokenType_zero = OtherType 0,
      TokenType_value = example_TokenType_value\<rparr>"

section \<open>Vocabulary of the statements\<close>

text \<open>
  After the spec's words, to compare with \<open>Inherit\<close>: the value of one field when an
  entry falls back on a list of others, nearest first. It is the first value that is set,
  and the last one of the list when none is.
\<close>

fun fallback_priority :: "('v \<Rightarrow> bool) \<Rightarrow> 'v \<Rightarrow> 'v list \<Rightarrow> 'v" where
  "fallback_priority is_set own [] = own"
| "fallback_priority is_set own (nearest # others) =
     (if is_set own then own else fallback_priority is_set nearest others)"

definition trilean_set :: "Trilean \<Rightarrow> bool" where
  "trilean_set t \<longleftrightarrow> t \<noteq> Pass"

text \<open>
  The entries \<^verbatim>\<open>Get\<close> falls back on for a token type, nearest first: sub-category,
  category, \<^verbatim>\<open>Text\<close>, \<^verbatim>\<open>Background\<close>.
\<close>

definition fallback_tiers :: "('c::zero) env \<Rightarrow> 'c Style \<Rightarrow> TokenType \<Rightarrow> 'c StyleEntry list" where
  "fallback_tiers E s ttype =
     [get E s (SubCategory E ttype), get E s (Category E ttype), get E s Text,
      get E s Background_tt]"

text \<open>The colour fields and the Trilean fields of an entry.\<close>

definition colour_fields :: "('c StyleEntry \<Rightarrow> 'c) list" where
  "colour_fields = [Colour, Background, Border]"

definition trilean_fields :: "('c StyleEntry \<Rightarrow> Trilean) list" where
  "trilean_fields = [Bold, Italic, Underline]"

text \<open>
  After the spec's words, for \<^verbatim>\<open>Build\<close>: the entries a built style is to hold, the parse of
  each staged descriptor.
\<close>

definition parsed_entries ::
  "('c::zero) env \<Rightarrow> (TokenType \<times> string) list \<Rightarrow> TokenType \<Rightarrow> 'c StyleEntry option" where
  "parsed_entries E m ttype =
     (case map_of m ttype of
        None \<Rightarrow> None
      | Some descriptor \<Rightarrow>
          (case ParseStyleEntry E descriptor of Inl err \<Rightarrow> None | Inr entry \<Rightarrow> Some entry))"

text \<open>
  The chain of a style: the style itself and its ancestors, nearest first; its root, the
  ancestor without parent; and whether some style of the chain holds a non-zero entry for a
  token type.
\<close>

fun chain :: "'c Style \<Rightarrow> 'c Style list" where
  "chain (Style n t es None) = [Style n t es None]"
| "chain (Style n t es (Some p)) = Style n t es (Some p) # chain p"

fun root :: "'c Style \<Rightarrow> 'c Style" where
  "root (Style n t es None) = Style n t es None"
| "root (Style n t es (Some p)) = root p"

definition explicit_in_chain :: "('c::zero) Style \<Rightarrow> TokenType \<Rightarrow> bool" where
  "explicit_in_chain s ttype \<longleftrightarrow> (\<exists>x\<in>set (chain s). \<not> IsZero (entry_at (entries x) ttype))"

text \<open>
  For the round trip: a byte is graphic when it is a printable ASCII character other than
  the space. A colour is well-formed for the environment when it is either unset and the
  zero colour, or set, written as \<^verbatim>\<open>#\<close> followed by graphic bytes, and parsed back from
  that text to itself.
\<close>

definition graphic :: "char \<Rightarrow> bool" where
  "graphic c \<longleftrightarrow> 0x21 \<le> (of_char c :: nat) \<and> (of_char c :: nat) \<le> 0x7E"

definition colour_text_ok :: "('c::zero) env \<Rightarrow> 'c \<Rightarrow> bool" where
  "colour_text_ok E c \<longleftrightarrow>
     (if IsSet E c then
        ParseColour E (Colour_String E c) = c \<and>
        (case Colour_String E c of [] \<Rightarrow> False | h # t \<Rightarrow> h = CHR ''#'' \<and> list_all graphic t)
      else c = 0)"

section \<open>Concrete entries and styles\<close>

text \<open>
  Entries over the instance: \<^verbatim>\<open>bold\<close>, \<^verbatim>\<open>#ff0000\<close>, \<^verbatim>\<open>#00ff00\<close>, \<^verbatim>\<open>noinherit\<close>,
  \<^verbatim>\<open>bold #ff0000\<close>, and one with every kind of field.
\<close>

definition entry_bold :: "int StyleEntry" where
  "entry_bold = StyleEntry_zero\<lparr>Bold := Yes\<rparr>"

definition entry_red :: "int StyleEntry" where
  "entry_red = StyleEntry_zero\<lparr>Colour := 0xff0001\<rparr>"

definition entry_green :: "int StyleEntry" where
  "entry_green = StyleEntry_zero\<lparr>Colour := 0x00ff01\<rparr>"

definition entry_noinherit :: "int StyleEntry" where
  "entry_noinherit = StyleEntry_zero\<lparr>NoInherit := True\<rparr>"

definition entry_bold_red :: "int StyleEntry" where
  "entry_bold_red = StyleEntry_zero\<lparr>Colour := 0xff0001, Bold := Yes\<rparr>"

definition entry_full :: "int StyleEntry" where
  "entry_full =
     \<lparr>Colour = 0xff0001, Background = 0x000001, Border = 0x123457,
      Bold = Yes, Italic = No, Underline = Pass, NoInherit = True\<rparr>"

text \<open>
  Styles: one with the single entry \<^verbatim>\<open>#cccccc\<close> for \<^verbatim>\<open>Text\<close>; one that also holds the
  entry \<^verbatim>\<open>noinherit\<close> for the token type 6101; one without entries whose parent is the
  first; a base style whose \<^verbatim>\<open>Background\<close> entry is \<^verbatim>\<open>#000000 bg:#ffffff\<close>, and a style
  derived from it that sets \<^verbatim>\<open>Background\<close> to \<^verbatim>\<open>#ff0000\<close>.
\<close>

definition style_text_only :: "int Style" where
  "style_text_only = Style ''plain'' ''dark'' [(Text, StyleEntry_zero\<lparr>Colour := 0xcccccd\<rparr>)] None"

definition style_stop :: "int Style" where
  "style_stop =
     Style ''stop'' ''dark''
       [(Text, StyleEntry_zero\<lparr>Colour := 0xcccccd\<rparr>), (OtherType 6101, entry_noinherit)] None"

definition style_child :: "int Style" where
  "style_child = Style ''child'' ''dark'' [] (Some style_text_only)"

definition style_base :: "int Style" where
  "style_base =
     Style ''base'' ''light''
       [(Background_tt, StyleEntry_zero\<lparr>Colour := 0x000001, Background := 0x1000000\<rparr>)] None"

definition style_derived :: "int Style" where
  "style_derived =
     Style ''derived'' ''light'' [(Background_tt, StyleEntry_zero\<lparr>Colour := 0xff0001\<rparr>)]
       (Some style_base)"

text \<open>
  Builders: one stages \<^verbatim>\<open>bold\<close> and \<^verbatim>\<open>bogus\<close>, the other \<^verbatim>\<open>bold\<close> and
  \<^verbatim>\<open>#ff0000\<close>.
\<close>

definition builder_bold_bogus :: "int StyleBuilder" where
  "builder_bold_bogus = Add (Add (NewStyleBuilder ''x'' ''dark'') (OtherType 1000) ''bold'') Text ''bogus''"

definition builder_bold_red :: "int StyleBuilder" where
  "builder_bold_red = Add (Add (NewStyleBuilder ''x'' ''dark'') (OtherType 1000) ''bold'') Text ''#ff0000''"

text \<open>
  An encoder that keeps the tokens it is given and never fails, and the tokens of two
  documents after the root's start tag.
\<close>

definition EncodeToken_append :: "xml_token list \<Rightarrow> xml_token \<Rightarrow> error option \<times> xml_token list" where
  "EncodeToken_append e t = (None, e @ [t])"

definition tokens_bare_entry :: "xml_token list" where
  "tokens_bare_entry = [StartElement ''entry'' [], EndElement ''entry'', EndElement ''style'']"

definition tokens_bold_bogus :: "xml_token list" where
  "tokens_bold_bogus =
     [StartElement ''entry'' [(''style'', ''bold'')], EndElement ''entry'',
      StartElement ''entry'' [(''style'', ''bogus'')], EndElement ''entry'',
      EndElement ''style'']"

section \<open>Properties of Inherit\<close>

lemma NoInherit_Inherit_step: "NoInherit (Inherit_step E out a) = NoInherit out"
  by (simp add: Inherit_step_def Let_def)

lemma NoInherit_Inherit_loop: "NoInherit (Inherit_loop E out as) = NoInherit out"
  by (induction as arbitrary: out) (simp_all add: NoInherit_Inherit_step)

lemma Inherit_loop_NoInherit: "NoInherit out \<Longrightarrow> Inherit_loop E out as = out"
  by (cases as) simp_all

lemma fallback_priority_set: "is_set own \<Longrightarrow> fallback_priority is_set own others = own"
  by (cases others) simp_all

lemma fallback_priority_nearest:
  "\<not> is_set own \<Longrightarrow> \<forall>b\<in>set nearer. \<not> is_set b \<Longrightarrow> is_set a \<Longrightarrow>
     fallback_priority is_set own (nearer @ a # farther) = a"
  by (induction nearer arbitrary: own) (simp_all add: fallback_priority_set)

lemma Inherit_step_fields:
  "Colour (Inherit_step E out a) = (if IsSet E (Colour out) then Colour out else Colour a)"
  "Background (Inherit_step E out a) = (if IsSet E (Background out) then Background out else Background a)"
  "Border (Inherit_step E out a) = (if IsSet E (Border out) then Border out else Border a)"
  "Bold (Inherit_step E out a) = (if trilean_set (Bold out) then Bold out else Bold a)"
  "Italic (Inherit_step E out a) = (if trilean_set (Italic out) then Italic out else Italic a)"
  "Underline (Inherit_step E out a) = (if trilean_set (Underline out) then Underline out else Underline a)"
  by (simp_all add: Inherit_step_def Let_def trilean_set_def)

lemma Colour_Inherit_loop:
  "Colour (Inherit_loop E out as) =
     (if NoInherit out then Colour out else fallback_priority (IsSet E) (Colour out) (map Colour as))"
  by (induction as arbitrary: out)
    (simp_all add: Inherit_step_fields NoInherit_Inherit_step fallback_priority_set)

lemma Background_Inherit_loop:
  "Background (Inherit_loop E out as) =
     (if NoInherit out then Background out
      else fallback_priority (IsSet E) (Background out) (map Background as))"
  by (induction as arbitrary: out)
    (simp_all add: Inherit_step_fields NoInherit_Inherit_step fallback_priority_set)

lemma Border_Inherit_loop:
  "Border (Inherit_loop E out as) =
     (if NoInherit out then Border out else fallback_priority (IsSet E) (Border out) (map Border as))"
  by (induction as arbitrary: out)
    (simp_all add: Inherit_step_fields NoInherit_Inherit_step fallback_priority_set)

lemma Bold_Inherit_loop:
  "Bold (Inherit_loop E out as) =
     (if NoInherit out then Bold out else fallback_priority trilean_set (Bold out) (map Bold as))"
  by (induction as arbitrary: out)
    (simp_all add: Inherit_step_fields NoInherit_Inherit_step fallback_priority_set)

lemma Italic_Inherit_loop:
  "Italic (Inherit_loop E out as) =
     (if NoInherit out then Italic out else fallback_priority trilean_set (Italic out) (map Italic as))"
  by (induction as arbitrary: out)
    (simp_all add: Inherit_step_fields NoInherit_Inherit_step fallback_priority_set)

lemma Underline_Inherit_loop:
  "Underline (Inherit_loop E out as) =
     (if NoInherit out then Underline out
      else fallback_priority trilean_set (Underline out) (map Underline as))"
  by (induction as arbitrary: out)
    (simp_all add: Inherit_step_fields NoInherit_Inherit_step fallback_priority_set)

lemmas field_Inherit_loop =
  Colour_Inherit_loop Background_Inherit_loop Border_Inherit_loop
  Bold_Inherit_loop Italic_Inherit_loop Underline_Inherit_loop

text \<open>
  Claim C3. An entry with \<^verbatim>\<open>NoInherit\<close> comes back from \<^verbatim>\<open>Inherit\<close> unchanged, whatever
  the ancestors are (none is consulted: the result does not depend on the list); and for
  every entry and every list of ancestors the result's \<^verbatim>\<open>NoInherit\<close> is the entry's own.
\<close>

theorem Inherit_NoInherit:
  "(NoInherit s \<longrightarrow> Inherit E s ancestors = s) \<and>
   NoInherit (Inherit E s ancestors) = NoInherit s"
  by (simp add: Inherit_def Inherit_loop_NoInherit NoInherit_Inherit_loop)

theorem Inherit_NoInherit_witness:
  "NoInherit entry_noinherit \<and>
   Inherit example_env entry_noinherit [entry_red, entry_green] = entry_noinherit \<and>
   NoInherit (Inherit example_env entry_bold [entry_noinherit]) = NoInherit entry_bold"
proof -
  have n: "NoInherit entry_noinherit"
    by (simp add: entry_noinherit_def)
  from n Inherit_NoInherit [of entry_noinherit example_env "[entry_red, entry_green]"]
    Inherit_NoInherit [of entry_bold example_env "[entry_noinherit]"]
  show ?thesis by blast
qed

section \<open>Resolution of an entry\<close>

text \<open>
  Claim C1, as stated, fails for a token type whose exact entry has \<^verbatim>\<open>NoInherit\<close>. The
  style holds \<^verbatim>\<open>noinherit\<close> for the token type 6101 and \<^verbatim>\<open>#cccccc\<close> for \<^verbatim>\<open>Text\<close>; the
  foreground colour is unset in the exact entry, in the sub-category and in the category,
  and set in the \<^verbatim>\<open>Text\<close> entry, yet \<^verbatim>\<open>Get\<close> does not take it.
\<close>

theorem Get_NoInherit_counterexample:
  "\<not> IsSet example_env (Colour (get example_env style_stop (OtherType 6101))) \<and>
   \<not> IsSet example_env
       (Colour (get example_env style_stop (SubCategory example_env (OtherType 6101)))) \<and>
   \<not> IsSet example_env
       (Colour (get example_env style_stop (Category example_env (OtherType 6101)))) \<and>
   IsSet example_env (Colour (get example_env style_stop Text)) \<and>
   Colour (Get example_env style_stop (OtherType 6101)) \<noteq>
     Colour (get example_env style_stop Text)"
proof -
  have c: "SubCategory example_env (OtherType 6101) = OtherType 6100"
    "Category example_env (OtherType 6101) = OtherType 6000"
    by (simp_all add: example_env_def example_SubCategory_def example_Category_def)
  have i: "IsSet example_env = rgb_IsSet"
    by (simp add: example_env_def)
  have x: "get example_env style_stop (OtherType 6101) = entry_noinherit"
    by (simp add: get.simps style_stop_def entry_at_def IsZero_def entry_noinherit_def
        StyleEntry_zero_def)
  have sub: "get example_env style_stop (OtherType 6100) = StyleEntry_zero"
    and cat: "get example_env style_stop (OtherType 6000) = StyleEntry_zero"
    by (simp_all add: get.simps style_stop_def entry_at_def IsZero_def StyleEntry_zero_def
        synthesisable_def)
  have tx: "get example_env style_stop Text = StyleEntry_zero\<lparr>Colour := 0xcccccd\<rparr>"
    by (simp add: get.simps style_stop_def entry_at_def IsZero_def StyleEntry_zero_def)
  have G: "Get example_env style_stop (OtherType 6101) = entry_noinherit"
    by (simp add: Get_def Inherit_def x c entry_noinherit_def)
  show ?thesis
    by (simp add: G x c sub cat tx i rgb_IsSet_def entry_noinherit_def StyleEntry_zero_def)
qed

text \<open>
  Claim C1, amended. \<^verbatim>\<open>Get\<close> of a token type is \<^verbatim>\<open>Inherit\<close> of its \<^verbatim>\<open>get\<close> over the
  list \<^verbatim>\<open>Background\<close>, \<^verbatim>\<open>Text\<close>, category, sub-category (oldest first). When the exact
  entry does not have \<^verbatim>\<open>NoInherit\<close>, every field falls back in the order exact entry,
  sub-category, category, \<^verbatim>\<open>Text\<close>, \<^verbatim>\<open>Background\<close>, the nearer tier winning; when it has,
  \<^verbatim>\<open>Get\<close> returns the exact entry as it is.
\<close>

theorem Get_fallback:
  "Get E s ttype =
     Inherit E (get E s ttype)
       [get E s Background_tt, get E s Text, get E s (Category E ttype),
        get E s (SubCategory E ttype)] \<and>
   (NoInherit (get E s ttype) \<longrightarrow> Get E s ttype = get E s ttype) \<and>
   (\<not> NoInherit (get E s ttype) \<longrightarrow>
     (\<forall>f\<in>set colour_fields.
        f (Get E s ttype) =
          fallback_priority (IsSet E) (f (get E s ttype)) (map f (fallback_tiers E s ttype))) \<and>
     (\<forall>f\<in>set trilean_fields.
        f (Get E s ttype) =
          fallback_priority trilean_set (f (get E s ttype)) (map f (fallback_tiers E s ttype))))"
proof -
  define x where "x = get E s ttype"
  define tiers where "tiers = fallback_tiers E s ttype"
  have g: "Get E s ttype = Inherit_loop E x tiers"
    by (simp only: Get_def Inherit_def x_def tiers_def fallback_tiers_def rev.simps append.simps)
  have 1: "Get E s ttype =
     Inherit E (get E s ttype)
       [get E s Background_tt, get E s Text, get E s (Category E ttype),
        get E s (SubCategory E ttype)]"
    by (simp only: Get_def)
  have 2: "NoInherit x \<longrightarrow> Get E s ttype = x"
    unfolding g by (rule impI) (rule Inherit_loop_NoInherit)
  have 3: "\<not> NoInherit x \<longrightarrow>
     (\<forall>f\<in>set colour_fields.
        f (Inherit_loop E x tiers) = fallback_priority (IsSet E) (f x) (map f tiers)) \<and>
     (\<forall>f\<in>set trilean_fields.
        f (Inherit_loop E x tiers) = fallback_priority trilean_set (f x) (map f tiers))"
    by (simp add: field_Inherit_loop colour_fields_def trilean_fields_def)
  from 2 3 have "(NoInherit x \<longrightarrow> Get E s ttype = x) \<and>
     (\<not> NoInherit x \<longrightarrow>
       (\<forall>f\<in>set colour_fields.
          f (Get E s ttype) = fallback_priority (IsSet E) (f x) (map f tiers)) \<and>
       (\<forall>f\<in>set trilean_fields.
          f (Get E s ttype) = fallback_priority trilean_set (f x) (map f tiers)))"
    unfolding g by (rule conjI)
  with 1 show ?thesis
    unfolding x_def tiers_def by (rule conjI)
qed

theorem Get_fallback_witness:
  "\<not> NoInherit (get example_env style_text_only (OtherType 6101)) \<and>
   Colour (Get example_env style_text_only (OtherType 6101)) = 0xcccccd \<and>
   NoInherit (get example_env style_stop (OtherType 6101)) \<and>
   Get example_env style_stop (OtherType 6101) = entry_noinherit"
proof -
  have st: "get example_env style_stop (OtherType 6101) = entry_noinherit"
    by (simp add: get.simps style_stop_def entry_at_def IsZero_def entry_noinherit_def
        StyleEntry_zero_def)
  then have ni: "NoInherit (get example_env style_stop (OtherType 6101))"
    by (simp add: entry_noinherit_def)
  with Get_fallback [of example_env style_stop "OtherType 6101"]
  have "Get example_env style_stop (OtherType 6101) =
      get example_env style_stop (OtherType 6101)"
    by blast
  with st ni have stop: "NoInherit (get example_env style_stop (OtherType 6101)) \<and>
      Get example_env style_stop (OtherType 6101) = entry_noinherit"
    by simp
  have n: "\<not> NoInherit (get example_env style_text_only (OtherType 6101))"
    by (simp add: get.simps style_text_only_def entry_at_def IsZero_def StyleEntry_zero_def
        synthesisable_def)
  have "Colour \<in> set colour_fields"
    by (simp add: colour_fields_def)
  with n Get_fallback [of example_env style_text_only "OtherType 6101"]
  have "Colour (Get example_env style_text_only (OtherType 6101)) =
      fallback_priority (IsSet example_env)
        (Colour (get example_env style_text_only (OtherType 6101)))
        (map Colour (fallback_tiers example_env style_text_only (OtherType 6101)))"
    by blast
  also have "\<dots> = 0xcccccd"
    by (simp add: get.simps fallback_tiers_def style_text_only_def entry_at_def
        IsZero_def StyleEntry_zero_def synthesisable_def example_env_def rgb_IsSet_def
        example_Category_def example_SubCategory_def)
  finally show ?thesis
    using n stop by simp
qed

section \<open>Priority among ancestors\<close>

text \<open>
  Claim C2, as stated, fails for an entry with \<^verbatim>\<open>NoInherit\<close>: its foreground colour is
  unset, its one ancestor has the colour set, and \<^verbatim>\<open>Inherit\<close> does not take it.
\<close>

theorem Inherit_unset_field_counterexample:
  "\<not> IsSet example_env (Colour entry_noinherit) \<and> IsSet example_env (Colour entry_red) \<and>
   Colour (Inherit example_env entry_noinherit [entry_red]) \<noteq> Colour entry_red"
  by (simp add: Inherit_def entry_noinherit_def entry_red_def example_env_def rgb_IsSet_def
      StyleEntry_zero_def)

text \<open>
  Claim C2, amended. \<^verbatim>\<open>Inherit\<close> never overwrites a field of the entry that is set (a
  colour that is set, a Trilean that is not \<^verbatim>\<open>Pass\<close>); and when the entry does not have
  \<^verbatim>\<open>NoInherit\<close>, a field it leaves unset takes the value of the nearest ancestor that has
  the field set: \<open>a\<close>, when no ancestor after \<open>a\<close> in the list has it set.
\<close>

theorem Inherit_priority:
  "(\<forall>f\<in>set colour_fields. IsSet E (f s) \<longrightarrow> f (Inherit E s ancestors) = f s) \<and>
   (\<forall>f\<in>set trilean_fields. f s \<noteq> Pass \<longrightarrow> f (Inherit E s ancestors) = f s) \<and>
   (\<not> NoInherit s \<longrightarrow>
     (\<forall>f\<in>set colour_fields.
        \<not> IsSet E (f s) \<and> IsSet E (f a) \<and> (\<forall>b\<in>set nearer. \<not> IsSet E (f b)) \<longrightarrow>
        f (Inherit E s (farther @ a # nearer)) = f a) \<and>
     (\<forall>f\<in>set trilean_fields.
        f s = Pass \<and> f a \<noteq> Pass \<and> (\<forall>b\<in>set nearer. f b = Pass) \<longrightarrow>
        f (Inherit E s (farther @ a # nearer)) = f a))"
proof (intro conjI impI)
  show "\<forall>f\<in>set colour_fields. IsSet E (f s) \<longrightarrow> f (Inherit E s ancestors) = f s"
    by (simp add: colour_fields_def Inherit_def field_Inherit_loop fallback_priority_set)
  show "\<forall>f\<in>set trilean_fields. f s \<noteq> Pass \<longrightarrow> f (Inherit E s ancestors) = f s"
    by (simp add: trilean_fields_def Inherit_def field_Inherit_loop fallback_priority_set
        trilean_set_def)
next
  assume n: "\<not> NoInherit s"
  have c: "\<not> IsSet E x \<Longrightarrow> IsSet E (f a) \<Longrightarrow> \<forall>b\<in>set nearer. \<not> IsSet E (f b) \<Longrightarrow>
      fallback_priority (IsSet E) x (map f (rev nearer) @ f a # map f (rev farther)) = f a"
    for x :: 'a and f
    by (rule fallback_priority_nearest) simp_all
  have t: "\<not> trilean_set x \<Longrightarrow> trilean_set (f a) \<Longrightarrow> \<forall>b\<in>set nearer. \<not> trilean_set (f b) \<Longrightarrow>
      fallback_priority trilean_set x (map f (rev nearer) @ f a # map f (rev farther)) = f a"
    for x and f :: "'a StyleEntry \<Rightarrow> Trilean"
    by (rule fallback_priority_nearest) simp_all
  show "\<forall>f\<in>set colour_fields.
        \<not> IsSet E (f s) \<and> IsSet E (f a) \<and> (\<forall>b\<in>set nearer. \<not> IsSet E (f b)) \<longrightarrow>
        f (Inherit E s (farther @ a # nearer)) = f a"
    using n by (simp add: colour_fields_def Inherit_def field_Inherit_loop c)
  show "\<forall>f\<in>set trilean_fields.
        f s = Pass \<and> f a \<noteq> Pass \<and> (\<forall>b\<in>set nearer. f b = Pass) \<longrightarrow>
        f (Inherit E s (farther @ a # nearer)) = f a"
    using n by (simp add: trilean_fields_def Inherit_def field_Inherit_loop t trilean_set_def)
qed

theorem Inherit_priority_witness:
  "Bold (Inherit example_env entry_bold [entry_red, entry_green]) = Yes \<and>
   Colour (Inherit example_env entry_bold [entry_red, entry_green]) = 0x00ff01"
  using Inherit_priority [of example_env entry_bold "[entry_red, entry_green]" entry_green "[]"
      "[entry_red]"]
  by (simp add: colour_fields_def trilean_fields_def entry_bold_def entry_red_def
      entry_green_def StyleEntry_zero_def example_env_def rgb_IsSet_def)

section \<open>Sub\<close>

text \<open>
  Claim C8, as stated, fails on the field \<^verbatim>\<open>NoInherit\<close>: it differs between the two
  entries, and the result does not keep it.
\<close>

theorem Sub_NoInherit_counterexample:
  "NoInherit entry_noinherit \<noteq> NoInherit (StyleEntry_zero :: int StyleEntry) \<and>
   NoInherit (Sub entry_noinherit StyleEntry_zero) \<noteq> NoInherit entry_noinherit"
  by (simp add: Sub_def entry_noinherit_def StyleEntry_zero_def)

text \<open>
  Claim C8, amended. Each of the three colours and the three Trileans of \<open>Sub s e\<close> is the
  field of \<open>s\<close> where it differs from the field of \<open>e\<close>, and unset (\<open>0\<close>, \<^verbatim>\<open>Pass\<close>)
  where the two are equal; \<^verbatim>\<open>NoInherit\<close> is not compared and is false in the result.
\<close>

theorem Sub_delta:
  "(\<forall>f\<in>set colour_fields. f (Sub s e) = (if f e \<noteq> f s then f s else 0)) \<and>
   (\<forall>f\<in>set trilean_fields. f (Sub s e) = (if f e \<noteq> f s then f s else Pass)) \<and>
   \<not> NoInherit (Sub s e)"
  by (simp add: Sub_def Let_def colour_fields_def trilean_fields_def StyleEntry_zero_def)

theorem Sub_delta_witness:
  "Colour (Sub entry_bold_red entry_bold) = 0xff0001 \<and>
   Bold (Sub entry_bold_red entry_bold) = Pass \<and>
   \<not> NoInherit (Sub entry_bold_red entry_bold)"
proof -
  have c: "Colour \<in> set colour_fields" and b: "Bold \<in> set trilean_fields"
    by (simp_all add: colour_fields_def trilean_fields_def)
  from c Sub_delta [of entry_bold_red entry_bold]
  have "Colour (Sub entry_bold_red entry_bold) =
      (if Colour entry_bold \<noteq> Colour entry_bold_red then Colour entry_bold_red else 0)"
    by blast
  moreover from b Sub_delta [of entry_bold_red entry_bold]
  have "Bold (Sub entry_bold_red entry_bold) =
      (if Bold entry_bold \<noteq> Bold entry_bold_red then Bold entry_bold_red else Pass)"
    by blast
  moreover from Sub_delta [of entry_bold_red entry_bold]
  have "\<not> NoInherit (Sub entry_bold_red entry_bold)"
    by blast
  ultimately show ?thesis
    by (simp add: entry_bold_red_def entry_bold_def StyleEntry_zero_def)
qed

section \<open>StyleBuilder.Build\<close>

lemma Build_entries_fails:
  "(k, d) \<in> set m \<Longrightarrow> ParseStyleEntry E d = Inl err \<Longrightarrow>
     \<exists>k' d' err'. (k', d') \<in> set m \<and> ParseStyleEntry E d' = Inl err' \<and>
       Build_entries E m acc = Inl (InvalidEntry k' err')"
proof (induction m arbitrary: acc)
  case Nil
  then show ?case by simp
next
  case (Cons p m)
  obtain k0 d0 where p: "p = (k0, d0)" by (cases p)
  show ?case
  proof (cases "ParseStyleEntry E d0")
    case (Inl e0)
    then have "Build_entries E (p # m) acc = Inl (InvalidEntry k0 e0)"
      by (simp add: p)
    with Inl show ?thesis
      unfolding p by (intro exI [of _ k0] exI [of _ d0] exI [of _ e0]) simp
  next
    case (Inr entry)
    with Cons.prems have "(k, d) \<in> set m"
      by (auto simp: p)
    from Cons.IH [OF this Cons.prems(2), of "AList.update k0 entry acc"]
    obtain k' d' err' where "(k', d') \<in> set m" "ParseStyleEntry E d' = Inl err'"
      "Build_entries E m (AList.update k0 entry acc) = Inl (InvalidEntry k' err')"
      by blast
    with Inr show ?thesis
      unfolding p by (intro exI [of _ k'] exI [of _ d'] exI [of _ err']) simp
  qed
qed

lemma Build_entries_succeeds:
  "distinct (map fst m) \<Longrightarrow> \<forall>(k, d)\<in>set m. \<exists>entry. ParseStyleEntry E d = Inr entry \<Longrightarrow>
     \<exists>es. Build_entries E m acc = Inr es \<and>
       (\<forall>k. map_of es k = (case parsed_entries E m k of None \<Rightarrow> map_of acc k | Some e \<Rightarrow> Some e))"
proof (induction m arbitrary: acc)
  case Nil
  then show ?case by (simp add: parsed_entries_def)
next
  case (Cons p m)
  obtain k0 d0 where p: "p = (k0, d0)" by (cases p)
  from Cons.prems obtain entry where e: "ParseStyleEntry E d0 = Inr entry"
    by (auto simp: p)
  from Cons.prems have "distinct (map fst m)"
    and "\<forall>(k, d)\<in>set m. \<exists>entry. ParseStyleEntry E d = Inr entry"
    and fresh: "map_of m k0 = None"
    by (auto simp: p map_of_eq_None_iff)
  from Cons.IH [OF this(1,2), of "AList.update k0 entry acc"]
  obtain es where es: "Build_entries E m (AList.update k0 entry acc) = Inr es"
    "\<forall>k. map_of es k =
       (case parsed_entries E m k of None \<Rightarrow> map_of (AList.update k0 entry acc) k
        | Some e \<Rightarrow> Some e)"
    by blast
  have "map_of es k =
      (case parsed_entries E (p # m) k of None \<Rightarrow> map_of acc k | Some e \<Rightarrow> Some e)" for k
    using es(2) [rule_format, of k] fresh e
    by (cases "k = k0") (simp_all add: p parsed_entries_def update_conv' split: option.splits)
  with es(1) e show ?case
    by (simp add: p)
qed

text \<open>
  Claim C4. If a staged descriptor fails to parse, \<^verbatim>\<open>Build\<close> returns no style (\<^verbatim>\<open>nil\<close>) and
  the error \<^verbatim>\<open>invalid entry for <type>: <parse error>\<close> of a staged descriptor that
  fails; if every staged descriptor parses, it returns a style and no error, with the
  builder's name, theme and parent and exactly the parsed entries. The builder's map holds
  one descriptor per token type.
\<close>

theorem Build_atomic:
  "((\<exists>(k, d)\<in>set (builder_entries b). \<exists>err. ParseStyleEntry E d = Inl err) \<longrightarrow>
      (\<exists>k d err. (k, d) \<in> set (builder_entries b) \<and> ParseStyleEntry E d = Inl err \<and>
         Build E b = (None, Some (InvalidEntry k err)))) \<and>
   (distinct (map fst (builder_entries b)) \<and>
    (\<forall>(k, d)\<in>set (builder_entries b). \<exists>entry. ParseStyleEntry E d = Inr entry) \<longrightarrow>
      (\<exists>st. Build E b = (Some st, None) \<and> Name st = builder_name b \<and>
         Theme st = builder_theme b \<and> parent st = builder_parent b \<and>
         map_of (entries st) = parsed_entries E (builder_entries b)))"
proof (intro conjI impI)
  assume "\<exists>(k, d)\<in>set (builder_entries b). \<exists>err. ParseStyleEntry E d = Inl err"
  then obtain k d err where "(k, d) \<in> set (builder_entries b)" "ParseStyleEntry E d = Inl err"
    by blast
  from Build_entries_fails [OF this, of "[]"]
  show "\<exists>k d err. (k, d) \<in> set (builder_entries b) \<and> ParseStyleEntry E d = Inl err \<and>
         Build E b = (None, Some (InvalidEntry k err))"
    by (auto simp: Build_def)
next
  assume "distinct (map fst (builder_entries b)) \<and>
    (\<forall>(k, d)\<in>set (builder_entries b). \<exists>entry. ParseStyleEntry E d = Inr entry)"
  then have "distinct (map fst (builder_entries b))"
    and "\<forall>(k, d)\<in>set (builder_entries b). \<exists>entry. ParseStyleEntry E d = Inr entry"
    by blast+
  from Build_entries_succeeds [OF this, of "[]"]
  obtain es where es: "Build_entries E (builder_entries b) [] = Inr es"
    "\<forall>k. map_of es k =
       (case parsed_entries E (builder_entries b) k of None \<Rightarrow> map_of [] k | Some e \<Rightarrow> Some e)"
    by blast
  have "map_of es k = parsed_entries E (builder_entries b) k" for k
    using es(2) [rule_format, of k] by (simp split: option.splits)
  then have "map_of es = parsed_entries E (builder_entries b)"
    by (rule ext)
  with es(1) show "\<exists>st. Build E b = (Some st, None) \<and> Name st = builder_name b \<and>
         Theme st = builder_theme b \<and> parent st = builder_parent b \<and>
         map_of (entries st) = parsed_entries E (builder_entries b)"
    by (simp add: Build_def)
qed

lemma parse_bold: "ParseStyleEntry E ''bold'' = Inr (StyleEntry_zero\<lparr>Bold := Yes\<rparr>)"
  by (simp add: ParseStyleEntry_def Fields_def ascii_space_def parse_part_def)

lemma parse_bogus: "ParseStyleEntry E ''bogus'' = Inl (UnknownStyleElement ''bogus'')"
  by (simp add: ParseStyleEntry_def Fields_def ascii_space_def parse_part_def HasPrefix_def)

lemma parse_red: "ParseStyleEntry example_env ''#ff0000'' = Inr (StyleEntry_zero\<lparr>Colour := 0xff0001\<rparr>)"
  by (simp add: ParseStyleEntry_def Fields_def ascii_space_def parse_part_def HasPrefix_def
      example_env_def rgb_ParseColour_def hex_value_def rgb_IsSet_def)

theorem Build_atomic_witness:
  "(\<exists>k d err. (k, d) \<in> set (builder_entries builder_bold_bogus) \<and>
      ParseStyleEntry example_env d = Inl err \<and>
      Build example_env builder_bold_bogus = (None, Some (InvalidEntry k err))) \<and>
   (\<exists>st. Build example_env builder_bold_red = (Some st, None) \<and>
      Name st = builder_name builder_bold_red \<and> Theme st = builder_theme builder_bold_red \<and>
      parent st = builder_parent builder_bold_red \<and>
      map_of (entries st) = parsed_entries example_env (builder_entries builder_bold_red))"
proof -
  have bad: "\<exists>(k, d)\<in>set (builder_entries builder_bold_bogus). \<exists>err.
      ParseStyleEntry example_env d = Inl err"
    by (simp add: builder_bold_bogus_def Add_def NewStyleBuilder_def parse_bogus)
  have good: "distinct (map fst (builder_entries builder_bold_red)) \<and>
      (\<forall>(k, d)\<in>set (builder_entries builder_bold_red). \<exists>entry.
         ParseStyleEntry example_env d = Inr entry)"
    by (simp add: builder_bold_red_def Add_def NewStyleBuilder_def parse_bold parse_red)
  from bad good Build_atomic [of builder_bold_bogus example_env]
    Build_atomic [of builder_bold_red example_env]
  show ?thesis by blast
qed

section \<open>Encoding and decoding\<close>

text \<open>
  Claim C9. \<^verbatim>\<open>MarshalXML\<close> of a style with a parent fails with
  \<^verbatim>\<open>cannot marshal style with parent\<close>, before a token is written; so it succeeds only
  for a style without parent.
\<close>

theorem MarshalXML_parent:
  "(parent s \<noteq> None \<longrightarrow>
      MarshalXML E EncodeToken s e = (Some CannotMarshalStyleWithParent, e)) \<and>
   (fst (MarshalXML E EncodeToken s e) = None \<longrightarrow> parent s = None)"
  by (auto simp: MarshalXML_def)

theorem MarshalXML_parent_witness:
  "MarshalXML example_env EncodeToken_append style_child [] =
     (Some CannotMarshalStyleWithParent, []) \<and>
   MarshalXML example_env EncodeToken_append style_text_only [] =
     (None,
      [StartElement ''style'' [(''name'', ''plain''), (''theme'', ''dark'')],
       StartElement ''entry'' [(''type'', ''Text''), (''style'', ''#cccccc'')],
       EndElement ''entry'', EndElement ''style'']) \<and>
   parent style_text_only = None"
proof -
  have p: "parent style_child \<noteq> None"
    by (simp add: style_child_def)
  have m: "MarshalXML example_env EncodeToken_append style_text_only [] =
     (None,
      [StartElement ''style'' [(''name'', ''plain''), (''theme'', ''dark'')],
       StartElement ''entry'' [(''type'', ''Text''), (''style'', ''#cccccc'')],
       EndElement ''entry'', EndElement ''style''])"
    by (simp add: MarshalXML_def style_text_only_def EncodeToken_append_def entry_at_def
        StyleEntry_String_def String_out_def StyleEntry_zero_def example_env_def rgb_IsSet_def
        rgb_String_def
        hex_digit_def example_TokenType_String_def)
  then have "fst (MarshalXML example_env EncodeToken_append style_text_only []) = None"
    by simp
  with p m MarshalXML_parent [of style_child example_env EncodeToken_append "[]"]
    MarshalXML_parent [of style_text_only example_env EncodeToken_append "[]"]
  show ?thesis by blast
qed

text \<open>
  Claim C10, as stated, fails for an element that lacks the \<^verbatim>\<open>style\<close> attribute only:
  \<^verbatim>\<open><entry type="Text"/>\<close> is accepted and its zero entry is stored under \<^verbatim>\<open>Text\<close>, not
  under the zero token type.
\<close>

theorem UnmarshalXML_type_only_counterexample:
  "UnmarshalXML example_env (Style [] [] [] None)
     [StartElement ''entry'' [(''type'', ''Text'')], EndElement ''entry'', EndElement ''style'']
     ''style'' [(''name'', ''n''), (''theme'', ''t'')] =
     (None, Style ''n'' ''t'' [(Text, StyleEntry_zero)] None) \<and>
   TokenType_zero example_env \<noteq> Text"
  by (simp add: UnmarshalXML_def set_entry_def example_env_def example_TokenTypeString_def)

text \<open>
  Claim C10, amended. The decoder takes an \<^verbatim>\<open>entry\<close> element without a \<^verbatim>\<open>type\<close> or without
  a \<^verbatim>\<open>style\<close> attribute and reports no error for it: what is missing stays at its zero
  value. Without attributes the zero entry is stored under the zero token type; with a
  \<^verbatim>\<open>style\<close> only, the parsed entry under the zero token type; with a \<^verbatim>\<open>type\<close> only, the
  zero entry under that token type. The decoder then goes on with the next token.
\<close>

theorem UnmarshalXML_entry_without_attributes:
  "UnmarshalXML_tokens E s start_name (StartElement ''entry'' [] # d) =
     UnmarshalXML_tokens E (set_entry s (TokenType_zero E) StyleEntry_zero) start_name d \<and>
   (ParseStyleEntry E v = Inr entry \<longrightarrow>
      UnmarshalXML_tokens E s start_name (StartElement ''entry'' [(''style'', v)] # d) =
        UnmarshalXML_tokens E (set_entry s (TokenType_zero E) entry) start_name d) \<and>
   (TokenTypeString E n = Inr ttype \<longrightarrow>
      UnmarshalXML_tokens E s start_name (StartElement ''entry'' [(''type'', n)] # d) =
        UnmarshalXML_tokens E (set_entry s ttype StyleEntry_zero) start_name d)"
  by simp

theorem UnmarshalXML_entry_without_attributes_witness:
  "UnmarshalXML example_env (Style [] [] [] None) tokens_bare_entry ''style''
     [(''name'', ''n''), (''theme'', ''t'')] =
     (None, Style ''n'' ''t'' [(OtherType 0, StyleEntry_zero)] None) \<and>
   UnmarshalXML example_env (Style [] [] [] None)
     [StartElement ''entry'' [(''style'', ''bold'')], EndElement ''style''] ''style''
     [(''name'', ''n''), (''theme'', ''t'')] =
     (None, Style ''n'' ''t'' [(OtherType 0, StyleEntry_zero\<lparr>Bold := Yes\<rparr>)] None) \<and>
   UnmarshalXML example_env (Style [] [] [] None)
     [StartElement ''entry'' [(''type'', ''Text'')], EndElement ''style''] ''style''
     [(''name'', ''n''), (''theme'', ''t'')] =
     (None, Style ''n'' ''t'' [(Text, StyleEntry_zero)] None)"
proof -
  have t: "TokenTypeString example_env ''Text'' = Inr Text"
    by (simp add: example_env_def example_TokenTypeString_def)
  have z: "TokenType_zero example_env = OtherType 0"
    by (simp add: example_env_def)
  note u = UnmarshalXML_entry_without_attributes
    [where E = example_env and s = "Style ''n'' ''t'' [] None" and start_name = "''style''"
      and v = "''bold''" and entry = "StyleEntry_zero\<lparr>Bold := Yes\<rparr>" and n = "''Text''"
      and ttype = Text]
  from u [where d = "[EndElement ''entry'', EndElement ''style'']"]
  have 1: "UnmarshalXML_tokens example_env (Style ''n'' ''t'' [] None) ''style''
      (StartElement ''entry'' [] # [EndElement ''entry'', EndElement ''style'']) =
      (None, Style ''n'' ''t'' [(OtherType 0, StyleEntry_zero)] None)"
    by (simp add: z set_entry_def del: UnmarshalXML_tokens.simps(2))
  from u [where d = "[EndElement ''style'']"] parse_bold [of example_env] t
  have 2: "UnmarshalXML_tokens example_env (Style ''n'' ''t'' [] None) ''style''
      (StartElement ''entry'' [(''style'', ''bold'')] # [EndElement ''style'']) =
      (None, Style ''n'' ''t'' [(OtherType 0, StyleEntry_zero\<lparr>Bold := Yes\<rparr>)] None)"
    and 3: "UnmarshalXML_tokens example_env (Style ''n'' ''t'' [] None) ''style''
      (StartElement ''entry'' [(''type'', ''Text'')] # [EndElement ''style'']) =
      (None, Style ''n'' ''t'' [(Text, StyleEntry_zero)] None)"
    by (simp_all add: z set_entry_def del: UnmarshalXML_tokens.simps(2))
  from 1 2 3 show ?thesis
    by (simp add: UnmarshalXML_def tokens_bare_entry_def del: UnmarshalXML_tokens.simps)
qed

text \<open>
  Claim C6 says that no style comes back from a construction that fails. \<^verbatim>\<open>Build\<close> keeps
  to that (claim C4: it returns \<^verbatim>\<open>nil\<close> with the error). \<^verbatim>\<open>NewXMLStyle\<close> does not: for
  the document \<^verbatim>\<open><style name="n" theme="t"><entry style="bold"/><entry style="bogus"/></style>\<close>
  it returns the error of the second entry together with a style that holds the name, the
  theme and the first entry.
\<close>

theorem NewXMLStyle_error_with_style:
  "NewXMLStyle (\<lambda>style. UnmarshalXML E style tokens_bold_bogus ''style''
       [(''name'', ''n''), (''theme'', ''t'')]) =
     (Some (Style ''n'' ''t'' [(TokenType_zero E, StyleEntry_zero\<lparr>Bold := Yes\<rparr>)] None),
      Some (UnknownStyleElement ''bogus''))"
  by (simp add: NewXMLStyle_def UnmarshalXML_def tokens_bold_bogus_def parse_bold parse_bogus
      set_entry_def)

section \<open>Synthesised line numbers\<close>

lemma root_parent: "parent (root s) = None"
  by (induction s rule: root.induct) simp_all

lemma root_self: "parent s = None \<Longrightarrow> root s = s"
  by (cases s) simp

lemma get_Background_root: "get E (root s) Background_tt = entry_at (entries (root s)) Background_tt"
  by (subst get.simps) (simp add: root_parent synthesisable_def)

lemma get_not_explicit:
  "\<not> explicit_in_chain s ttype \<Longrightarrow> synthesisable ttype \<Longrightarrow>
     get E s ttype = synthesise E (root s) ttype"
proof (induction s rule: root.induct)
  case (1 n t es)
  then show ?case
    by (subst get.simps) (simp add: explicit_in_chain_def)
next
  case (2 n t es p)
  from "2.prems" have "\<not> explicit_in_chain p ttype"
    and "IsZero (entry_at es ttype)"
    by (simp_all add: explicit_in_chain_def)
  with "2.IH" "2.prems"(2) show ?case
    by (subst get.simps) simp
qed

text \<open>
  Claim C7, as stated, fails for a style with a parent. The derived style holds no entry for
  \<^verbatim>\<open>LineNumbers\<close> anywhere in its chain and resolves \<^verbatim>\<open>Background\<close> to its own entry
  \<^verbatim>\<open>#ff0000\<close>; the colour \<^verbatim>\<open>Get\<close> gives for \<^verbatim>\<open>LineNumbers\<close> is derived from the base
  style's \<^verbatim>\<open>#000000\<close> instead.
\<close>

theorem line_numbers_counterexample:
  "\<not> explicit_in_chain style_derived LineNumbers \<and>
   Colour (Get example_env style_derived LineNumbers) \<noteq>
     BrightenOrDarken example_env (Colour (get example_env style_derived Background_tt)) 0.5 \<and>
   Colour (Get example_env style_derived LineNumbers) \<noteq>
     BrightenOrDarken example_env (Colour (Get example_env style_derived Background_tt)) 0.5"
proof -
  have e: "\<not> explicit_in_chain style_derived LineNumbers"
    by (simp add: explicit_in_chain_def style_derived_def style_base_def entry_at_def
        IsZero_def StyleEntry_zero_def)
  have bg: "get example_env style_derived Background_tt = StyleEntry_zero\<lparr>Colour := 0xff0001\<rparr>"
    by (simp add: get.simps style_derived_def entry_at_def IsZero_def StyleEntry_zero_def)
  have tx: "get example_env style_derived Text = StyleEntry_zero"
    by (simp add: get.simps style_derived_def style_base_def entry_at_def IsZero_def
        StyleEntry_zero_def synthesisable_def)
  have ln: "get example_env style_derived LineNumbers = StyleEntry_zero\<lparr>Colour := 0x7f7f80\<rparr>"
    by (simp add: get.simps synthesise.simps style_derived_def style_base_def entry_at_def
        IsZero_def StyleEntry_zero_def synthesisable_def example_env_def
        rgb_BrightenOrDarken_def rgb_Brighten_def rgb_channel_def)
  have c: "Category example_env LineNumbers = LineNumbers"
    "SubCategory example_env LineNumbers = LineNumbers"
    "Category example_env Background_tt = Background_tt"
    "SubCategory example_env Background_tt = Background_tt"
    by (simp_all add: example_env_def example_Category_def example_SubCategory_def)
  have i: "IsSet example_env = rgb_IsSet"
    by (simp add: example_env_def)
  have G: "Colour (Get example_env style_derived LineNumbers) = 0x7f7f80"
    by (simp add: Get_def c bg tx ln Inherit_def Inherit_step_def i rgb_IsSet_def
        StyleEntry_zero_def)
  have B: "Colour (Get example_env style_derived Background_tt) = 0xff0001"
    by (simp add: Get_def c bg tx Inherit_def Inherit_step_def i rgb_IsSet_def
        StyleEntry_zero_def)
  have d: "BrightenOrDarken example_env 0xff0001 (1 / 2) = 0xff7f80"
    by (simp add: example_env_def rgb_BrightenOrDarken_def rgb_Brighten_def rgb_channel_def)
  show ?thesis
    by (simp add: e G B bg d)
qed

text \<open>
  Claim C7, amended. When no style of the chain holds a non-zero entry for \<^verbatim>\<open>LineNumbers\<close>
  (or \<^verbatim>\<open>LineNumbersTable\<close>), \<^verbatim>\<open>get\<close> gives the entry whose only field is the foreground
  colour \<^verbatim>\<open>BrightenOrDarken(0.5)\<close> of the foreground slot of the \<^verbatim>\<open>Background\<close> entry of
  the chain's root, the style without parent (the style itself when it has none): the
  synthesis runs there, on the root's own entry. \<^verbatim>\<open>Get\<close> has that foreground colour
  whenever the colour is a set one, and \<^verbatim>\<open>Has\<close> is true.
\<close>

theorem line_numbers_synthesis:
  "(ttype = LineNumbers \<or> ttype = LineNumbersTable) \<and> \<not> explicit_in_chain s ttype \<longrightarrow>
     get E s ttype =
       StyleEntry_zero\<lparr>Colour := BrightenOrDarken E (Colour (get E (root s) Background_tt)) 0.5\<rparr> \<and>
     get E (root s) Background_tt = entry_at (entries (root s)) Background_tt \<and>
     (parent s = None \<longrightarrow> root s = s) \<and>
     (IsSet E (BrightenOrDarken E (Colour (get E (root s) Background_tt)) 0.5) \<longrightarrow>
        Colour (Get E s ttype) =
          BrightenOrDarken E (Colour (get E (root s) Background_tt)) 0.5) \<and>
     Has E s ttype"
proof (intro impI)
  assume a: "(ttype = LineNumbers \<or> ttype = LineNumbersTable) \<and> \<not> explicit_in_chain s ttype"
  then have sy: "synthesisable ttype"
    by (auto simp: synthesisable_def)
  define c where "c = BrightenOrDarken E (Colour (get E (root s) Background_tt)) 0.5"
  from a sy have "get E s ttype = synthesise E (root s) ttype"
    by (simp add: get_not_explicit)
  also from a have "\<dots> = StyleEntry_zero\<lparr>Colour := c\<rparr>"
    by (subst synthesise.simps) (auto simp: c_def Let_def)
  finally have g: "get E s ttype = StyleEntry_zero\<lparr>Colour := c\<rparr>" .
  have G: "Colour (Get E s ttype) = c" if "IsSet E c"
  proof -
    have "Colour (Inherit_loop E (StyleEntry_zero\<lparr>Colour := c\<rparr>) as) = c" for as
      unfolding Colour_Inherit_loop using that
      by (simp add: fallback_priority_set StyleEntry_zero_def)
    then show ?thesis
      by (simp only: Get_def g Inherit_def)
  qed
  from g G sy show "get E s ttype = StyleEntry_zero\<lparr>Colour := c\<rparr> \<and>
     get E (root s) Background_tt = entry_at (entries (root s)) Background_tt \<and>
     (parent s = None \<longrightarrow> root s = s) \<and>
     (IsSet E c \<longrightarrow> Colour (Get E s ttype) = c) \<and>
     Has E s ttype"
    by (simp add: get_Background_root root_self Has_def)
qed

theorem line_numbers_synthesis_witness:
  "\<not> explicit_in_chain style_derived LineNumbers \<and>
   get example_env style_derived LineNumbers = StyleEntry_zero\<lparr>Colour := 0x7f7f80\<rparr> \<and>
   Colour (Get example_env style_derived LineNumbers) = 0x7f7f80 \<and>
   Has example_env style_derived LineNumbers"
proof -
  have e: "\<not> explicit_in_chain style_derived LineNumbers"
    by (simp add: explicit_in_chain_def style_derived_def style_base_def entry_at_def
        IsZero_def StyleEntry_zero_def)
  have r: "root style_derived = style_base"
    by (simp add: style_derived_def style_base_def)
  have bg: "get example_env style_base Background_tt =
      StyleEntry_zero\<lparr>Colour := 0x000001, Background := 0x1000000\<rparr>"
    by (simp add: get.simps style_base_def entry_at_def IsZero_def StyleEntry_zero_def)
  have d: "BrightenOrDarken example_env 0x000001 (1 / 2) = 0x7f7f80"
    by (simp add: example_env_def rgb_BrightenOrDarken_def rgb_Brighten_def rgb_channel_def)
  have i: "IsSet example_env 0x7f7f80"
    by (simp add: example_env_def rgb_IsSet_def)
  from e i line_numbers_synthesis [of LineNumbers style_derived example_env]
  show ?thesis
    by (simp add: r bg d)
qed

section \<open>Writing an entry and parsing it back\<close>

lemma space_width_graphic: "graphic c \<Longrightarrow> space_width (c # cs) = 0"
  by (simp add: graphic_def ascii_space_def Let_def)

lemma Fields_from_graphic:
  "list_all graphic w \<Longrightarrow> Fields_from (w @ rest) cur = Fields_from rest (cur @ w)"
  by (induction w arbitrary: cur) (simp_all add: space_width_graphic del: space_width.simps)

lemma space_width_space: "space_width (CHR '' '' # cs) = 1"
  by (simp add: ascii_space_def)

lemma Fields_from_Join:
  "list_all (\<lambda>w. w \<noteq> [] \<and> list_all graphic w) ws \<Longrightarrow> Fields_from (Join ws '' '') [] = ws"
proof (induction ws "'' ''" rule: Join.induct)
  case 1
  then show ?case by simp
next
  case (2 x)
  then have "Fields_from (x @ []) [] = [x]"
    by (subst Fields_from_graphic) simp_all
  then show ?case by simp
next
  case (3 x y ys)
  then have "Fields_from (x @ CHR '' '' # Join (y # ys) '' '') [] =
      Fields_from (CHR '' '' # Join (y # ys) '' '') x"
    by (subst Fields_from_graphic) simp_all
  also from 3 have "\<dots> = x # y # ys"
    by (simp add: space_width_space del: space_width.simps Join.simps)
  finally show ?case by simp
qed

lemma parse_parts_append:
  "parse_parts E out (xs @ ys) =
     (case parse_parts E out xs of Inl err \<Rightarrow> Inl err | Inr out' \<Rightarrow> parse_parts E out' ys)"
  by (induction xs arbitrary: out) (simp_all split: sum.splits)

lemma parse_Bold:
  "Bold out = Pass \<Longrightarrow>
     parse_parts E out (if Bold s \<noteq> Pass then [Prefix (Bold s) ''bold''] else []) =
       Inr (out\<lparr>Bold := Bold s\<rparr>)"
  by (cases "Bold s") (auto simp: Prefix_def parse_part_def)

lemma parse_Italic:
  "Italic out = Pass \<Longrightarrow>
     parse_parts E out (if Italic s \<noteq> Pass then [Prefix (Italic s) ''italic''] else []) =
       Inr (out\<lparr>Italic := Italic s\<rparr>)"
  by (cases "Italic s") (auto simp: Prefix_def parse_part_def)

lemma parse_Underline:
  "Underline out = Pass \<Longrightarrow>
     parse_parts E out (if Underline s \<noteq> Pass then [Prefix (Underline s) ''underline''] else []) =
       Inr (out\<lparr>Underline := Underline s\<rparr>)"
  by (cases "Underline s") (auto simp: Prefix_def parse_part_def)

lemma parse_NoInherit:
  "\<not> NoInherit out \<Longrightarrow>
     parse_parts E out (if NoInherit s then [''noinherit''] else []) =
       Inr (out\<lparr>NoInherit := NoInherit s\<rparr>)"
  by (auto simp: parse_part_def)

lemma colour_text_shape:
  "colour_text_ok E c \<Longrightarrow> IsSet E c \<Longrightarrow>
     \<exists>t. Colour_String E c = CHR ''#'' # t \<and> list_all graphic t \<and> ParseColour E (CHR ''#'' # t) = c"
  by (auto simp: colour_text_ok_def split: list.splits)

lemma colour_text_unset: "colour_text_ok E c \<Longrightarrow> \<not> IsSet E c \<Longrightarrow> c = 0"
  by (simp add: colour_text_ok_def)

lemma parse_Colour:
  assumes "colour_text_ok E (Colour s)" "Colour out = 0"
  shows "parse_parts E out (if IsSet E (Colour s) then [Colour_String E (Colour s)] else []) =
       Inr (out\<lparr>Colour := Colour s\<rparr>)"
proof (cases "IsSet E (Colour s)")
  case True
  from colour_text_shape [OF assms(1) True] obtain t where
    "Colour_String E (Colour s) = CHR ''#'' # t" "ParseColour E (CHR ''#'' # t) = Colour s"
    by blast
  with True show ?thesis
    by (simp add: parse_part_def HasPrefix_def)
next
  case False
  with assms colour_text_unset [OF assms(1) False] show ?thesis
    by simp
qed

lemma parse_Background:
  assumes "colour_text_ok E (Background s)" "Background out = 0"
  shows "parse_parts E out
       (if IsSet E (Background s) then [''bg:'' @ Colour_String E (Background s)] else []) =
       Inr (out\<lparr>Background := Background s\<rparr>)"
proof (cases "IsSet E (Background s)")
  case True
  from colour_text_shape [OF assms(1) True] obtain t where
    "Colour_String E (Background s) = CHR ''#'' # t"
    "ParseColour E (CHR ''#'' # t) = Background s"
    by blast
  with True show ?thesis
    by (simp add: parse_part_def HasPrefix_def)
next
  case False
  with assms colour_text_unset [OF assms(1) False] show ?thesis
    by simp
qed

lemma parse_Border:
  assumes "colour_text_ok E (Border s)" "Border out = 0"
  shows "parse_parts E out
       (if IsSet E (Border s) then [''border:'' @ Colour_String E (Border s)] else []) =
       Inr (out\<lparr>Border := Border s\<rparr>)"
proof (cases "IsSet E (Border s)")
  case True
  from colour_text_shape [OF assms(1) True] obtain t where
    "Colour_String E (Border s) = CHR ''#'' # t"
    "ParseColour E (CHR ''#'' # t) = Border s"
    by blast
  with True show ?thesis
    by (simp add: parse_part_def HasPrefix_def)
next
  case False
  with assms colour_text_unset [OF assms(1) False] show ?thesis
    by simp
qed

lemma if_snoc: "(if c then xs @ [w] else xs) = xs @ (if c then [w] else [])"
  by simp

lemma String_out_append:
  "String_out E s =
     (if Bold s \<noteq> Pass then [Prefix (Bold s) ''bold''] else []) @
     (if Italic s \<noteq> Pass then [Prefix (Italic s) ''italic''] else []) @
     (if Underline s \<noteq> Pass then [Prefix (Underline s) ''underline''] else []) @
     (if NoInherit s then [''noinherit''] else []) @
     (if IsSet E (Colour s) then [Colour_String E (Colour s)] else []) @
     (if IsSet E (Background s) then [''bg:'' @ Colour_String E (Background s)] else []) @
     (if IsSet E (Border s) then [''border:'' @ Colour_String E (Border s)] else [])"
  unfolding String_out_def Let_def if_snoc by (simp only: append_Nil append_assoc)

lemma parse_String_out:
  assumes "colour_text_ok E (Colour s)" "colour_text_ok E (Background s)"
    "colour_text_ok E (Border s)"
  shows "parse_parts E StyleEntry_zero (String_out E s) = Inr s"
proof -
  define o1 where "o1 = (StyleEntry_zero :: 'a StyleEntry)\<lparr>Bold := Bold s\<rparr>"
  define o2 where "o2 = o1\<lparr>Italic := Italic s\<rparr>"
  define o3 where "o3 = o2\<lparr>Underline := Underline s\<rparr>"
  define o4 where "o4 = o3\<lparr>NoInherit := NoInherit s\<rparr>"
  define o5 where "o5 = o4\<lparr>Colour := Colour s\<rparr>"
  define o6 where "o6 = o5\<lparr>Background := Background s\<rparr>"
  define o7 where "o7 = o6\<lparr>Border := Border s\<rparr>"
  note o = o1_def o2_def o3_def o4_def o5_def o6_def o7_def
  have 1: "parse_parts E StyleEntry_zero
      (if Bold s \<noteq> Pass then [Prefix (Bold s) ''bold''] else []) = Inr o1"
    unfolding o1_def by (rule parse_Bold) (simp add: StyleEntry_zero_def)
  have 2: "parse_parts E o1
      (if Italic s \<noteq> Pass then [Prefix (Italic s) ''italic''] else []) = Inr o2"
    unfolding o2_def by (rule parse_Italic) (simp add: o StyleEntry_zero_def)
  have 3: "parse_parts E o2
      (if Underline s \<noteq> Pass then [Prefix (Underline s) ''underline''] else []) = Inr o3"
    unfolding o3_def by (rule parse_Underline) (simp add: o StyleEntry_zero_def)
  have 4: "parse_parts E o3 (if NoInherit s then [''noinherit''] else []) = Inr o4"
    unfolding o4_def by (rule parse_NoInherit) (simp add: o StyleEntry_zero_def)
  have 5: "parse_parts E o4
      (if IsSet E (Colour s) then [Colour_String E (Colour s)] else []) = Inr o5"
    unfolding o5_def by (rule parse_Colour [OF assms(1)]) (simp add: o StyleEntry_zero_def)
  have 6: "parse_parts E o5
      (if IsSet E (Background s) then [''bg:'' @ Colour_String E (Background s)] else []) =
      Inr o6"
    unfolding o6_def by (rule parse_Background [OF assms(2)]) (simp add: o StyleEntry_zero_def)
  have 7: "parse_parts E o6
      (if IsSet E (Border s) then [''border:'' @ Colour_String E (Border s)] else []) = Inr o7"
    unfolding o7_def by (rule parse_Border [OF assms(3)]) (simp add: o StyleEntry_zero_def)
  have "parse_parts E StyleEntry_zero (String_out E s) = Inr o7"
    unfolding String_out_append
    by (simp only: parse_parts_append 1 2 3 4 5 6 7 sum.case)
  moreover have "o7 = s"
    by (simp add: o StyleEntry_zero_def)
  ultimately show ?thesis
    by simp
qed

lemma words_String_out:
  assumes "colour_text_ok E (Colour s)" "colour_text_ok E (Background s)"
    "colour_text_ok E (Border s)"
  shows "list_all (\<lambda>w. w \<noteq> [] \<and> list_all graphic w) (String_out E s)"
proof -
  have k: "list_all graphic ''bold''" "list_all graphic ''nobold''" "list_all graphic ''italic''"
    "list_all graphic ''noitalic''" "list_all graphic ''underline''"
    "list_all graphic ''nounderline''" "list_all graphic ''noinherit''"
    "list_all graphic ''bg:''" "list_all graphic ''border:''"
    by (simp_all add: graphic_def)
  have c: "list_all graphic (Colour_String E x) \<and> Colour_String E x \<noteq> []"
    if "colour_text_ok E x" "IsSet E x" for x
    using colour_text_shape [OF that] by (auto simp: graphic_def)
  have t: "Prefix x w \<noteq> [] \<and> list_all graphic (Prefix x w)"
    if "x \<noteq> Pass" "w \<noteq> []" "list_all graphic w" "list_all graphic (''no'' @ w)" for x w
    using that by (cases x) (simp_all add: Prefix_def)
  show ?thesis
    unfolding String_out_append using assms k
    by (simp add: c t)
qed

text \<open>
  Claim C5. For every entry whose three colours are well-formed (unset and zero, or set,
  written as \<^verbatim>\<open>#\<close> and graphic bytes and parsed back from that text to themselves),
  \<^verbatim>\<open>ParseStyleEntry\<close> of the entry's \<^verbatim>\<open>String\<close> succeeds and returns the entry.
\<close>

theorem Parse_String_roundtrip:
  "colour_text_ok E (Colour e) \<and> colour_text_ok E (Background e) \<and>
   colour_text_ok E (Border e) \<longrightarrow>
     ParseStyleEntry E (StyleEntry_String E e) = Inr e"
  by (simp add: ParseStyleEntry_def StyleEntry_String_def Fields_def Fields_from_Join
      words_String_out parse_String_out)

theorem Parse_String_roundtrip_witness:
  "StyleEntry_String example_env entry_full =
     ''bold noitalic noinherit #ff0000 bg:#000000 border:#123456'' \<and>
   ParseStyleEntry example_env (StyleEntry_String example_env entry_full) = Inr entry_full"
proof -
  have ok: "colour_text_ok example_env 0xff0001" "colour_text_ok example_env 0x000001"
    "colour_text_ok example_env 0x123457"
    by (simp_all add: colour_text_ok_def example_env_def rgb_IsSet_def rgb_String_def
        rgb_ParseColour_def hex_digit_def hex_value_def graphic_def)
  have s: "StyleEntry_String example_env entry_full =
     ''bold noitalic noinherit #ff0000 bg:#000000 border:#123456''"
    by (simp add: StyleEntry_String_def String_out_def entry_full_def Prefix_def example_env_def
        rgb_IsSet_def rgb_String_def hex_digit_def)
  from ok have "colour_text_ok example_env (Colour entry_full) \<and>
      colour_text_ok example_env (Background entry_full) \<and>
      colour_text_ok example_env (Border entry_full)"
    by (simp add: entry_full_def)
  with Parse_String_roundtrip [of example_env entry_full] s show ?thesis
    by blast
qed

end
